theory Spec2Isabelle
  imports Main "HOL-Library.Log_Nat" "HOL-Library.Char_ord" "HOL-Library.List_Lexorder"
    "HOL-Library.Multiset"
begin

section \<open>Python values used by the selector and the factory\<close>

subsection \<open>Binary64 arithmetic\<close>

text \<open>
  Python's \<open>float\<close> is an IEEE 754 binary64 number, and every finite one is a rational.
  A score is therefore a \<open>rat\<close>, and each arithmetic operation of the source is the exact
  operation followed by rounding to the nearest binary64 value, ties to even (\<open>fl\<close>).
  The rounding is the one of the normal range (no overflow, no subnormals): the scores of
  the selector are products and sums of registry entries (0 to 100) and weights (0.1 to
  1.1), far inside that range. An \<open>int\<close> of the source that meets a \<open>float\<close> is converted
  exactly, so it is the same rational.
\<close>

definition round_half_even :: "rat \<Rightarrow> int" where
  "round_half_even q =
     (let f = \<lfloor>q\<rfloor>; d = q - of_int f
      in if d < 1 / 2 then f else if 1 / 2 < d then f + 1 else if even f then f else f + 1)"

definition pow2 :: "int \<Rightarrow> rat" where
  "pow2 k = (if 0 \<le> k then 2 ^ nat k else 1 / 2 ^ nat (- k))"

text \<open>The exponent \<open>e\<close> with \<open>2^e \<le> q < 2^(e+1)\<close>, for a positive \<open>q\<close>.\<close>

definition binade :: "rat \<Rightarrow> int" where
  "binade q =
     (let n = fst (quotient_of q); d = snd (quotient_of q);
          e = bitlen n - bitlen d
      in if q < pow2 e then e - 1 else e)"

definition fl :: "rat \<Rightarrow> rat" where
  "fl q =
     (if q = 0 then 0
      else let a = \<bar>q\<bar>; s = 52 - binade a
           in sgn q * of_int (round_half_even (a * pow2 s)) * pow2 (- s))"

definition fmul :: "rat \<Rightarrow> rat \<Rightarrow> rat" where
  "fmul a b = fl (a * b)"

definition fadd :: "rat \<Rightarrow> rat \<Rightarrow> rat" where
  "fadd a b = fl (a + b)"

definition fsub :: "rat \<Rightarrow> rat \<Rightarrow> rat" where
  "fsub a b = fl (a - b)"

definition fdiv :: "rat \<Rightarrow> rat \<Rightarrow> rat" where
  "fdiv a b = fl (a / b)"

text \<open>
  A field of type \<open>float\<close> that the caller supplies (the duration) may also be an
  infinity or NaN; the source only compares it with a constant, and every comparison
  with NaN is false.
\<close>

datatype pyfloat = Finite rat | PosInf | NegInf | NaN

fun float_lt :: "pyfloat \<Rightarrow> rat \<Rightarrow> bool" where
  "float_lt (Finite q) r = (q < r)"
| "float_lt NegInf r = True"
| "float_lt PosInf r = False"
| "float_lt NaN r = False"

fun float_gt :: "pyfloat \<Rightarrow> rat \<Rightarrow> bool" where
  "float_gt (Finite q) r = (r < q)"
| "float_gt PosInf r = True"
| "float_gt NegInf r = False"
| "float_gt NaN r = False"

section \<open>The selector (asr/selector.py)\<close>

subsection \<open>Data model\<close>

datatype Scenario = REALTIME | TRANSCRIPTION | MEETING | MULTILINGUAL | COMMAND | GENERAL

record AudioContext =
  audio_path :: "string option"
  duration_seconds :: pyfloat
  estimated_speakers :: int
  language_hint :: string
  is_streaming :: bool
  priority :: string

text \<open>
  The justification strings of the source are Chinese text; each is a constructor here,
  in the order of the \<open>reasons.append\<close> calls of \<open>_score_engine\<close>. The two formatted
  strings carry the language count they print.
\<close>

datatype reason =
    NoStreaming
  | NativeStreaming
  | NoDiarization
  | HasDiarization
  | OnlyLanguages int
  | SupportsLanguages int
  | HighAccuracyModel
  | LowLatencyResponse
  | ChineseOptimised
  | EnglishSupport

record EngineScore =
  engine_name :: string
  total_score :: rat
  latency_score :: rat
  accuracy_score :: rat
  resource_score :: rat
  feature_score :: rat
  reasons :: "reason list"

record SelectionResult =
  recommended_engine :: string
  fallback_engine :: string
  scenario :: Scenario
  score :: EngineScore
  confidence :: rat
  alternatives :: "string list"

text \<open>One value of the \<open>ENGINE_CAPABILITIES\<close> dictionary.\<close>

record capability =
  latency :: int
  accuracy :: int
  resource :: int
  streaming :: bool
  diarization :: bool
  languages :: int
  model_names :: "string list"

record weights =
  w_latency :: rat
  w_accuracy :: rat
  w_resource :: rat

text \<open>
  The exceptions of the two modules. \<open>ValueError\<close> carries the engine name of
  "Unknown ASR engine: ..."; \<open>TypeError\<close> is a call with a missing or an unexpected
  keyword argument; the \<open>RuntimeError\<close> messages are the constructors of
  \<open>runtime_msg\<close>: the two of the factory, and the one of \<open>_load_model\<close> in the two
  local clients; \<open>ConstructorError\<close> is whatever else the constructor of a registered
  engine raises, with its message.
\<close>

datatype runtime_msg = MossMissingApiKey | NoFallbackOption string | ModelLoadFailed

datatype py_exn =
    IndexError
  | TypeError
  | ValueError string
  | RuntimeError runtime_msg
  | ConstructorError string

subsection \<open>The class tables\<close>

text \<open>
  A dictionary literal is an association list in the order of the source, which is the
  order of \<open>keys()\<close>; a lookup is \<open>map_of\<close>.
\<close>

definition ENGINE_CAPABILITIES :: "(string \<times> capability) list" where
  "ENGINE_CAPABILITIES =
     [(''nano-2512'',
         \<lparr>latency = 95, accuracy = 80, resource = 70, streaming = True, diarization = False,
          languages = 31, model_names = [''nano-2512'', ''nano-mlt'']\<rparr>),
      (''paraformer-zh'',
         \<lparr>latency = 50, accuracy = 90, resource = 60, streaming = False, diarization = True,
          languages = 1, model_names = [''paraformer-zh'']\<rparr>),
      (''sensevoice'',
         \<lparr>latency = 40, accuracy = 95, resource = 50, streaming = False, diarization = False,
          languages = 5, model_names = [''sensevoice'']\<rparr>),
      (''moss'',
         \<lparr>latency = 30, accuracy = 88, resource = 100, streaming = False, diarization = True,
          languages = 1, model_names = [''moss-transcribe-diarize'']\<rparr>)]"

text \<open>
  \<open>SCENARIO_WEIGHTS\<close> has a key for each of the six scenarios, so the subscript of the
  source never misses; every weight dictionary has the three keys \<open>latency\<close>,
  \<open>accuracy\<close> and \<open>resource\<close>. A float literal is the binary64 value nearest to it.
\<close>

definition mk_weights :: "rat \<Rightarrow> rat \<Rightarrow> rat \<Rightarrow> weights" where
  "mk_weights l a r = \<lparr>w_latency = fl l, w_accuracy = fl a, w_resource = fl r\<rparr>"

fun SCENARIO_WEIGHTS :: "Scenario \<Rightarrow> weights" where
  "SCENARIO_WEIGHTS REALTIME = mk_weights (5 / 10) (3 / 10) (2 / 10)"
| "SCENARIO_WEIGHTS TRANSCRIPTION = mk_weights (2 / 10) (6 / 10) (2 / 10)"
| "SCENARIO_WEIGHTS MEETING = mk_weights (3 / 10) (4 / 10) (3 / 10)"
| "SCENARIO_WEIGHTS MULTILINGUAL = mk_weights (3 / 10) (4 / 10) (3 / 10)"
| "SCENARIO_WEIGHTS COMMAND = mk_weights (6 / 10) (3 / 10) (1 / 10)"
| "SCENARIO_WEIGHTS GENERAL = mk_weights (3 / 10) (4 / 10) (3 / 10)"

definition FALLBACK_CHAIN :: "(string \<times> string list) list" where
  "FALLBACK_CHAIN =
     [(''nano-2512'', [''paraformer-zh'', ''moss'']),
      (''paraformer-zh'', [''sensevoice'', ''moss'']),
      (''sensevoice'', [''paraformer-zh'', ''moss'']),
      (''moss'', [''paraformer-zh''])]"

subsection \<open>Construction\<close>

text \<open>
  \<open>__init__\<close> stores \<open>_available_engines\<close>: every key of the registry when no list is
  given, otherwise the entries of the given list that are keys of the registry, in the
  given order. \<open>in_registry e\<close> is the test \<open>e in self.ENGINE_CAPABILITIES\<close>.
\<close>

definition in_registry :: "string \<Rightarrow> bool" where
  "in_registry e = (map_of ENGINE_CAPABILITIES e \<noteq> None)"

definition EngineSelector_init :: "string list option \<Rightarrow> string list" where
  "EngineSelector_init available_engines =
     (case available_engines of
        None \<Rightarrow> map fst ENGINE_CAPABILITIES
      | Some es \<Rightarrow> filter in_registry es)"

subsection \<open>Scenario detection\<close>

definition detect_scenario :: "AudioContext \<Rightarrow> Scenario" where
  "detect_scenario context =
     (if is_streaming context then REALTIME
      else if language_hint context = ''en'' \<or> language_hint context = ''multi''
        then MULTILINGUAL
      else if float_lt (duration_seconds context) 5 \<and> priority context = ''latency''
        then COMMAND
      else if estimated_speakers context > 1 then MEETING
      else if float_gt (duration_seconds context) 60 \<and> priority context = ''accuracy''
        then TRANSCRIPTION
      else GENERAL)"

subsection \<open>Scoring\<close>

text \<open>\<open>capabilities.get(key, default)\<close> on the registry entry, \<open>{}\<close> when the engine is unknown.\<close>

definition cap_get :: "(capability \<Rightarrow> 'a) \<Rightarrow> 'a \<Rightarrow> capability option \<Rightarrow> 'a" where
  "cap_get key dflt capabilities =
     (case capabilities of None \<Rightarrow> dflt | Some c \<Rightarrow> key c)"

definition get_priority_weights :: "string \<Rightarrow> weights" where
  "get_priority_weights p =
     (if p = ''latency'' then mk_weights (6 / 10) (3 / 10) (1 / 10)
      else if p = ''accuracy'' then mk_weights (2 / 10) (7 / 10) (1 / 10)
      else mk_weights (4 / 10) (4 / 10) (2 / 10))"

text \<open>
  \<open>_score_engine\<close>: the three scores and the reasons are local variables that the
  blocks of the source update in turn; each \<open>let\<close> below is one block.
\<close>

definition score_engine :: "string \<Rightarrow> Scenario \<Rightarrow> AudioContext \<Rightarrow> weights \<Rightarrow> EngineScore" where
  "score_engine engine scn context wts =
     (let capabilities = map_of ENGINE_CAPABILITIES engine;
          latency0 = of_int (cap_get latency 0 capabilities);
          accuracy0 = of_int (cap_get accuracy 0 capabilities);
          resource0 = of_int (cap_get resource 0 capabilities);
          (latency1, reasons1) =
            (if scn = REALTIME then
               (if \<not> cap_get streaming False capabilities
                then (fmul latency0 (fl (1 / 10)), [NoStreaming])
                else (latency0, [NativeStreaming]))
             else (latency0, []));
          (accuracy1, reasons2) =
            (if scn = MEETING then
               (if \<not> cap_get diarization False capabilities
                then (fmul accuracy0 (fl (5 / 10)), reasons1 @ [NoDiarization])
                else (accuracy0, reasons1 @ [HasDiarization]))
             else (accuracy0, reasons1));
          (accuracy2, reasons3) =
            (if scn = MULTILINGUAL then
               (let lang_count = cap_get languages 1 capabilities
                in if lang_count < 5
                   then (fmul accuracy1 (fl (7 / 10)), reasons2 @ [OnlyLanguages lang_count])
                   else (accuracy1, reasons2 @ [SupportsLanguages lang_count]))
             else (accuracy1, reasons2));
          reasons4 =
            (if scn = TRANSCRIPTION \<and> cap_get accuracy 0 capabilities \<ge> 90
             then reasons3 @ [HighAccuracyModel] else reasons3);
          reasons5 =
            (if scn = COMMAND \<and> cap_get latency 0 capabilities \<ge> 80
             then reasons4 @ [LowLatencyResponse] else reasons4);
          (accuracy3, reasons6) =
            (if language_hint context = ''zh'' \<and> cap_get languages 0 capabilities \<ge> 1
             then (fmul accuracy2 (fl (11 / 10)), reasons5 @ [ChineseOptimised])
             else (accuracy2, reasons5));
          (accuracy4, reasons7) =
            (if language_hint context = ''en''
                \<and> (let names = cap_get model_names [] capabilities
                   in ''en'' \<in> set names \<or> ''paraformer-en'' \<in> set names)
             then (fmul accuracy3 (fl (11 / 10)), reasons6 @ [EnglishSupport])
             else (accuracy3, reasons6));
          total =
            fadd (fadd (fmul latency1 (w_latency wts)) (fmul accuracy4 (w_accuracy wts)))
                 (fmul resource0 (w_resource wts))
      in \<lparr>engine_name = engine, total_score = total, latency_score = latency1,
          accuracy_score = accuracy4, resource_score = resource0, feature_score = 0,
          reasons = reasons7\<rparr>)"

subsection \<open>Selection\<close>

text \<open>
  \<open>scores.sort(key=..., reverse=True)\<close> is a stable sort by descending total score:
  entries with equal totals keep their order. \<open>sort_key\<close> is a stable ascending sort,
  here on the negated total.
\<close>

definition sort_scores :: "(string \<times> EngineScore) list \<Rightarrow> (string \<times> EngineScore) list" where
  "sort_scores scores = sort_key (\<lambda>x. - total_score (snd x)) scores"

definition resolve_weights :: "Scenario \<Rightarrow> string option \<Rightarrow> weights" where
  "resolve_weights scn prio =
     (case prio of
        None \<Rightarrow> SCENARIO_WEIGHTS scn
      | Some p \<Rightarrow> if p \<noteq> [] \<and> p \<noteq> ''auto'' then get_priority_weights p
                 else SCENARIO_WEIGHTS scn)"

text \<open>
  The list of (engine, score) pairs that the loop of \<open>select\<close> appends to, in the order
  of \<open>_available_engines\<close>, and the same list after \<open>scores.sort\<close>.
\<close>

definition scored :: "string list \<Rightarrow> AudioContext \<Rightarrow> string option \<Rightarrow> (string \<times> EngineScore) list" where
  "scored available context prio =
     (let scn = detect_scenario context;
          wts = resolve_weights scn prio
      in map (\<lambda>engine. (engine, score_engine engine scn context wts)) available)"

definition ranked :: "string list \<Rightarrow> AudioContext \<Rightarrow> string option \<Rightarrow> (string \<times> EngineScore) list" where
  "ranked available context prio = sort_scores (scored available context prio)"

text \<open>\<open>FALLBACK_CHAIN.get(best_engine, ['moss'])[0]\<close>; the subscript raises on an empty list.\<close>

definition first_fallback :: "string \<Rightarrow> py_exn + string" where
  "first_fallback best_engine =
     (case (case map_of FALLBACK_CHAIN best_engine of None \<Rightarrow> [''moss''] | Some chain \<Rightarrow> chain) of
        [] \<Rightarrow> Inl IndexError
      | f # _ \<Rightarrow> Inr f)"

definition clamp01 :: "rat \<Rightarrow> rat" where
  "clamp01 c = max 0 (min 1 c)"

text \<open>
  \<open>select\<close>, with the selector's \<open>_available_engines\<close> as first argument. The empty
  \<open>EngineScore(engine_name='none')\<close> has the defaults of the dataclass.
\<close>

definition select :: "string list \<Rightarrow> AudioContext \<Rightarrow> string option \<Rightarrow> py_exn + SelectionResult" where
  "select available context prio =
     (let scn = detect_scenario context;
          scores = ranked available context prio
      in case scores of
           [] \<Rightarrow>
             Inr \<lparr>recommended_engine = ''paraformer-zh'', fallback_engine = ''moss'',
                  scenario = GENERAL,
                  score = \<lparr>engine_name = ''none'', total_score = 0, latency_score = 0,
                           accuracy_score = 0, resource_score = 0, feature_score = 0,
                           reasons = []\<rparr>,
                  confidence = 0, alternatives = []\<rparr>
         | (best_engine, best_score) # rest \<Rightarrow>
             (case first_fallback best_engine of
                Inl e \<Rightarrow> Inl e
              | Inr fallback \<Rightarrow>
                  Inr \<lparr>recommended_engine = best_engine, fallback_engine = fallback,
                       scenario = scn, score = best_score,
                       confidence =
                         (if length scores > 1
                          then clamp01 (fdiv (fsub (total_score best_score)
                                                   (total_score (snd (scores ! 1)))) 100)
                          else 1),
                       alternatives = map fst (take 3 (drop 1 scores))\<rparr>))"

section \<open>The factory (asr/factory.py)\<close>

subsection \<open>Keyword arguments\<close>

text \<open>
  \<open>**kwargs\<close> is a dictionary from names to values; the values the factory reads are
  strings, booleans and \<open>None\<close>. \<open>a or b\<close> is \<open>a\<close> when \<open>a\<close> is truthy, else \<open>b\<close>.
  The keyword arguments hold no key that is also a parameter name of the function they
  are passed to (\<open>engine\<close>, \<open>primary_engine\<close>, ...), which Python refuses at the call.
\<close>

datatype pyval = VNone | VBool bool | VInt int | VStr string

type_synonym kwargs = "(string \<times> pyval) list"

fun truthy :: "pyval \<Rightarrow> bool" where
  "truthy VNone = False"
| "truthy (VBool b) = b"
| "truthy (VInt i) = (i \<noteq> 0)"
| "truthy (VStr s) = (s \<noteq> [])"

definition kw_get_default :: "kwargs \<Rightarrow> string \<Rightarrow> pyval \<Rightarrow> pyval" where
  "kw_get_default kw k dflt = (case map_of kw k of None \<Rightarrow> dflt | Some v \<Rightarrow> v)"

definition kw_get :: "kwargs \<Rightarrow> string \<Rightarrow> pyval" where
  "kw_get kw k = kw_get_default kw k VNone"

definition py_or :: "pyval \<Rightarrow> pyval \<Rightarrow> pyval" where
  "py_or a b = (if truthy a then a else b)"

subsection \<open>Clients and the engine table\<close>

text \<open>
  The factory only calls a client's constructor and reads \<open>is_available\<close>. The class
  attribute \<open>_engines\<close> maps an engine name to a constructor, which returns a client or
  raises; \<open>register\<close> can change the table, so it is a parameter of every operation.
\<close>

record ASRClient =
  client_class :: string
  is_available :: bool

type_synonym constructor = "kwargs \<Rightarrow> py_exn + ASRClient"

type_synonym engines = "(string \<times> constructor) list"

text \<open>
  The three client classes. A constructor call with a keyword that is not one of its
  parameters, or without a required one, is a \<open>TypeError\<close>. \<open>MossClient\<close> stores the
  key and is available when the key is truthy. The two local clients load their model
  in the constructor: whether \<open>funasr\<close> imports and \<open>AutoModel\<close> returns is outside the
  program (\<open>model_loads\<close>); when it does not, \<open>_load_model\<close> raises \<open>RuntimeError\<close>.
\<close>

definition accepts :: "string list \<Rightarrow> kwargs \<Rightarrow> bool" where
  "accepts params kw = list_all (\<lambda>k. k \<in> set params) (map fst kw)"

definition MossClient :: constructor where
  "MossClient kw =
     (if map_of kw ''api_key'' = None \<or> \<not> accepts [''api_key'', ''model''] kw
      then Inl TypeError
      else Inr \<lparr>client_class = ''MossClient'',
                is_available = truthy (kw_get kw ''api_key'')\<rparr>)"

definition FunASRClient :: "bool \<Rightarrow> constructor" where
  "FunASRClient model_loads kw =
     (if \<not> accepts [''model'', ''device'', ''enable_diarization''] kw then Inl TypeError
      else if model_loads
        then Inr \<lparr>client_class = ''FunASRClient'', is_available = True\<rparr>
      else Inl (RuntimeError ModelLoadFailed))"

definition FunASRNanoClient :: "bool \<Rightarrow> constructor" where
  "FunASRNanoClient model_loads kw =
     (if \<not> accepts [''model'', ''device''] kw then Inl TypeError
      else if model_loads
        then Inr \<lparr>client_class = ''FunASRNanoClient'', is_available = True\<rparr>
      else Inl (RuntimeError ModelLoadFailed))"

text \<open>The table \<open>_engines\<close> as the class body writes it.\<close>

definition class_engines :: "bool \<Rightarrow> engines" where
  "class_engines model_loads =
     [(''moss'', MossClient), (''funasr'', FunASRClient model_loads),
      (''nano-2512'', FunASRNanoClient model_loads),
      (''nano-mlt'', FunASRNanoClient model_loads)]"

definition create :: "engines \<Rightarrow> string \<Rightarrow> kwargs \<Rightarrow> py_exn + ASRClient" where
  "create engs engine kw =
     (case map_of engs engine of
        None \<Rightarrow> Inl (ValueError engine)
      | Some ctor \<Rightarrow> ctor kw)"

definition get_available_engines :: "engines \<Rightarrow> string list" where
  "get_available_engines engs = map fst engs"

subsection \<open>Creation with fallback\<close>

text \<open>
  What \<open>create_with_fallback\<close> does besides returning is recorded as a list of events:
  each call of \<open>cls.create\<close> with its arguments, and the two messages it prints.
\<close>

datatype event =
    CreateCall string kwargs
  | PrintInitFailed string py_exn
  | PrintFallback string

definition funasr_kwargs :: "kwargs \<Rightarrow> kwargs" where
  "funasr_kwargs kw =
     [(''model'', py_or (kw_get kw ''model'')
                        (kw_get_default kw ''funasr_model'' (VStr ''paraformer-zh''))),
      (''device'', py_or (kw_get kw ''device'')
                         (kw_get_default kw ''funasr_device'' (VStr ''cpu'')))]"

definition fallback_kwargs_of :: "string \<Rightarrow> kwargs \<Rightarrow> kwargs" where
  "fallback_kwargs_of fallback kw =
     (if fallback = ''moss'' then [(''api_key'', kw_get_default kw ''api_key'' (VStr []))]
      else if fallback = ''funasr'' then funasr_kwargs kw
      else kw)"

definition primary_kwargs_of :: "string \<Rightarrow> kwargs \<Rightarrow> kwargs" where
  "primary_kwargs_of primary kw =
     (if primary = ''funasr'' then
        funasr_kwargs kw
          @ [(''enable_diarization'', kw_get_default kw ''enable_diarization'' (VBool False))]
      else if primary = ''nano-2512'' \<or> primary = ''nano-mlt'' then
        [(''model'', py_or (kw_get kw ''model'') (VStr primary)),
         (''device'', py_or (kw_get kw ''device'')
                            (kw_get_default kw ''nano_device'' (VStr ''cpu'')))]
      else if primary = ''moss'' then
        [(''api_key'', kw_get_default kw ''api_key'' (VStr []))]
      else kw)"

text \<open>The part of \<open>create_with_fallback\<close> after the \<open>try\<close> block.\<close>

definition auto_fallback ::
    "engines \<Rightarrow> string \<Rightarrow> string \<Rightarrow> kwargs \<Rightarrow> event list \<times> (py_exn + ASRClient)" where
  "auto_fallback engs primary fallback fallback_kwargs =
     (if primary = ''funasr'' \<or> primary = ''nano-2512''
           \<or> primary = ''nano-mlt'' then
        (if fallback = ''moss'' then
           (if \<not> truthy (kw_get fallback_kwargs ''api_key'')
            then ([PrintFallback fallback], Inl (RuntimeError MossMissingApiKey))
            else ([PrintFallback fallback, CreateCall ''moss'' fallback_kwargs],
                  create engs ''moss'' fallback_kwargs))
         else if fallback = ''funasr'' then
           ([PrintFallback fallback, CreateCall ''funasr'' fallback_kwargs],
            create engs ''funasr'' fallback_kwargs)
         else ([PrintFallback fallback],
               Inl (RuntimeError (NoFallbackOption primary))))
      else ([], Inl (RuntimeError (NoFallbackOption primary))))"

definition create_with_fallback ::
    "engines \<Rightarrow> string \<Rightarrow> string \<Rightarrow> kwargs \<Rightarrow> event list \<times> (py_exn + ASRClient)" where
  "create_with_fallback engs primary fallback kw =
     (let fallback_kwargs = fallback_kwargs_of fallback kw;
          primary_kwargs = primary_kwargs_of primary kw;
          call = CreateCall primary primary_kwargs
      in case create engs primary primary_kwargs of
           Inr client \<Rightarrow>
             if is_available client then ([call], Inr client)
             else (let (evs, r) = auto_fallback engs primary fallback fallback_kwargs
                   in (call # evs, r))
         | Inl e \<Rightarrow>
             (let (evs, r) = auto_fallback engs primary fallback fallback_kwargs
              in (call # PrintInitFailed primary e # evs, r)))"

subsection \<open>Smart creation\<close>

text \<open>
  \<open>create_smart\<close> builds a selector on the names of the engine table, selects with no
  priority argument, and creates the recommended engine with the selected fallback. The
  output of \<open>explain\<close> is only printed and is left out.
\<close>

definition create_smart_selection :: "engines \<Rightarrow> AudioContext \<Rightarrow> py_exn + SelectionResult" where
  "create_smart_selection engs context =
     select (EngineSelector_init (Some (get_available_engines engs))) context None"

definition create_smart ::
    "engines \<Rightarrow> AudioContext \<Rightarrow> kwargs
       \<Rightarrow> event list \<times> (py_exn + ASRClient \<times> SelectionResult)" where
  "create_smart engs context kw =
     (case create_smart_selection engs context of
        Inl e \<Rightarrow> ([], Inl e)
      | Inr result \<Rightarrow>
          (let (evs, r) = create_with_fallback engs (recommended_engine result)
                            (fallback_engine result) kw
           in (evs, case r of Inl e \<Rightarrow> Inl e | Inr client \<Rightarrow> Inr (client, result))))"

section \<open>The specification's formulations\<close>

text \<open>
  The classifier as the specification words it: an ordered list of rules, the first
  rule whose condition holds gives the scenario, and GENERAL when none does.
\<close>

definition classification_rules :: "((AudioContext \<Rightarrow> bool) \<times> Scenario) list" where
  "classification_rules =
     [(\<lambda>c. is_streaming c, REALTIME),
      (\<lambda>c. language_hint c \<in> {''en'', ''multi''}, MULTILINGUAL),
      (\<lambda>c. float_lt (duration_seconds c) 5 \<and> priority c = ''latency'', COMMAND),
      (\<lambda>c. estimated_speakers c > 1, MEETING),
      (\<lambda>c. float_gt (duration_seconds c) 60 \<and> priority c = ''accuracy'', TRANSCRIPTION)]"

fun first_match :: "(('a \<Rightarrow> bool) \<times> 'b) list \<Rightarrow> 'b \<Rightarrow> 'a \<Rightarrow> 'b" where
  "first_match [] otherwise c = otherwise"
| "first_match ((cond, s) # rules) otherwise c =
     (if cond c then s else first_match rules otherwise c)"

definition classify :: "AudioContext \<Rightarrow> Scenario" where
  "classify c = first_match classification_rules GENERAL c"

text \<open>The specification's \<open>clamp(x, lo, hi)\<close>.\<close>

definition clamp :: "rat \<Rightarrow> rat \<Rightarrow> rat \<Rightarrow> rat" where
  "clamp x lo hi = (if x < lo then lo else if hi < x then hi else x)"

text \<open>
  The total scores of the candidates, the highest first: the specification's
  \<open>top.total\<close> is the first entry and \<open>second.total\<close> the second. They are
  taken from the scorer alone, not from the list that \<open>select\<close> sorts.
\<close>

definition totals_descending :: "string list \<Rightarrow> AudioContext \<Rightarrow> string option \<Rightarrow> rat list" where
  "totals_descending available context prio =
     rev (sort (map (\<lambda>engine. total_score
                       (score_engine engine (detect_scenario context) context
                          (resolve_weights (detect_scenario context) prio)))
                    available))"

text \<open>
  The primary fails when its construction raises or the client it returns is not
  available.
\<close>

definition primary_failed :: "engines \<Rightarrow> string \<Rightarrow> kwargs \<Rightarrow> bool" where
  "primary_failed engs primary kw =
     (case create engs primary (primary_kwargs_of primary kw) of
        Inl e \<Rightarrow> True
      | Inr client \<Rightarrow> \<not> is_available client)"

section \<open>Properties of the selector\<close>

lemma in_registry_iff:
  "in_registry e \<longleftrightarrow>
     e = ''nano-2512'' \<or> e = ''paraformer-zh'' \<or> e = ''sensevoice'' \<or> e = ''moss''"
  by (simp add: in_registry_def ENGINE_CAPABILITIES_def)

lemma first_fallback_cases:
  "first_fallback b =
     Inr (if b = ''nano-2512'' then ''paraformer-zh''
          else if b = ''paraformer-zh'' then ''sensevoice''
          else if b = ''sensevoice'' then ''paraformer-zh''
          else if b = ''moss'' then ''paraformer-zh'' else ''moss'')"
  by (simp add: first_fallback_def FALLBACK_CHAIN_def)

lemma first_fallback_total:
  "\<exists>f. first_fallback b = Inr f \<and> f \<noteq> b \<and> in_registry f"
  by (simp add: first_fallback_cases in_registry_iff)

lemma init_registered: "e \<in> set (EngineSelector_init candidates) \<Longrightarrow> in_registry e"
  by (cases candidates)
     (auto simp: EngineSelector_init_def in_registry_iff ENGINE_CAPABILITIES_def)

lemma map_fst_scored: "map fst (scored available ctx prio) = available"
  by (simp add: scored_def Let_def comp_def)

lemma set_fst_ranked: "set (map fst (ranked available ctx prio)) = set available"
proof -
  have "set (map fst (ranked available ctx prio)) = fst ` set (scored available ctx prio)"
    by (simp add: ranked_def sort_scores_def)
  also have "\<dots> = set (map fst (scored available ctx prio))" by simp
  finally show ?thesis by (simp only: map_fst_scored)
qed

lemma length_ranked: "length (ranked available ctx prio) = length available"
  by (simp add: ranked_def sort_scores_def scored_def Let_def)

lemma ranked_Nil_iff: "ranked available ctx prio = [] \<longleftrightarrow> available = []"
  using length_ranked [of available ctx prio] by (metis length_0_conv)

lemma select_empty:
  "ranked available ctx prio = [] \<Longrightarrow>
   select available ctx prio =
     Inr \<lparr>recommended_engine = ''paraformer-zh'', fallback_engine = ''moss'',
          scenario = GENERAL,
          score = \<lparr>engine_name = ''none'', total_score = 0, latency_score = 0,
                   accuracy_score = 0, resource_score = 0, feature_score = 0,
                   reasons = []\<rparr>,
          confidence = 0, alternatives = []\<rparr>"
  by (simp add: select_def Let_def)

lemma select_nonempty:
  assumes "ranked available ctx prio = (b, s) # rest"
      and "first_fallback b = Inr f"
  shows "select available ctx prio =
     Inr \<lparr>recommended_engine = b, fallback_engine = f,
          scenario = detect_scenario ctx, score = s,
          confidence =
            (if rest \<noteq> []
             then clamp01 (fdiv (fsub (total_score s) (total_score (snd (hd rest)))) 100)
             else 1),
          alternatives = map fst (take 3 rest)\<rparr>"
  using assms by (cases rest) (simp_all add: select_def Let_def)

text \<open>
  C2. Whatever candidate list the selector is built on (or none), and whatever the
  context and the priority argument, \<open>select\<close> returns a result, and the recommended
  engine, the fallback engine and every alternative of that result are keys of
  \<open>ENGINE_CAPABILITIES\<close>.
\<close>

theorem select_engines_registered:
  "\<exists>r. select (EngineSelector_init candidates) ctx prio = Inr r
     \<and> in_registry (recommended_engine r)
     \<and> in_registry (fallback_engine r)
     \<and> list_all in_registry (alternatives r)"
proof -
  let ?av = "EngineSelector_init candidates"
  show ?thesis
  proof (cases "ranked ?av ctx prio")
    case Nil
    show ?thesis
      by (simp add: select_empty [OF Nil] in_registry_iff)
  next
    case (Cons p rest)
    obtain b s where p: "p = (b, s)" by (cases p)
    obtain f where f: "first_fallback b = Inr f" "in_registry f"
      using first_fallback_total [of b] by blast
    have rk: "ranked ?av ctx prio = (b, s) # rest" using Cons p by simp
    have sub: "set (map fst ((b, s) # rest)) = set ?av"
      using set_fst_ranked [of ?av ctx prio] rk by simp
    have "b \<in> set ?av" using sub by auto
    then have b: "in_registry b" by (rule init_registered)
    have "set (map fst (take 3 rest)) \<subseteq> set ?av"
      using sub set_take_subset [of 3 rest] by auto
    then have alts: "list_all in_registry (map fst (take 3 rest))"
      using init_registered unfolding list_all_iff by blast
    show ?thesis
      using b f(2) alts by (simp add: select_nonempty [OF rk f(1)])
  qed
qed

text \<open>
  C8. When the selector has no candidate (the list given to it is empty, or none of its
  entries is in the registry), \<open>select\<close> returns, for every context and priority
  argument, the degraded result: engine \<open>paraformer-zh\<close>, fallback \<open>moss\<close>, scenario
  GENERAL, confidence 0, no alternatives. It returns a value, so it does not raise.
\<close>

theorem select_empty_degraded:
  "EngineSelector_init candidates = [] \<Longrightarrow>
   select (EngineSelector_init candidates) ctx prio =
     Inr \<lparr>recommended_engine = ''paraformer-zh'', fallback_engine = ''moss'',
          scenario = GENERAL,
          score = \<lparr>engine_name = ''none'', total_score = 0, latency_score = 0,
                   accuracy_score = 0, resource_score = 0, feature_score = 0,
                   reasons = []\<rparr>,
          confidence = 0, alternatives = []\<rparr>"
  by (rule select_empty) (simp add: ranked_Nil_iff)

theorem select_empty_degraded_witness:
  "EngineSelector_init (Some [''whisper'']) = [] \<and>
   select (EngineSelector_init (Some [''whisper'']))
       \<lparr>audio_path = None, duration_seconds = Finite 30, estimated_speakers = 3,
        language_hint = ''zh'', is_streaming = True, priority = ''latency''\<rparr>
       (Some ''accuracy'') =
     Inr \<lparr>recommended_engine = ''paraformer-zh'', fallback_engine = ''moss'',
          scenario = GENERAL,
          score = \<lparr>engine_name = ''none'', total_score = 0, latency_score = 0,
                   accuracy_score = 0, resource_score = 0, feature_score = 0,
                   reasons = []\<rparr>,
          confidence = 0, alternatives = []\<rparr>"
proof -
  have h: "EngineSelector_init (Some [''whisper'']) = []"
    by (simp add: EngineSelector_init_def in_registry_iff)
  show ?thesis using h select_empty_degraded [OF h] by simp
qed

text \<open>
  C9. For every list of available engines, context and priority argument, \<open>select\<close>
  returns a result whose fallback engine differs from its recommended engine. When
  there is a candidate, the fallback is the first entry of the recommended engine's
  list in \<open>FALLBACK_CHAIN\<close>, which is not empty, or \<open>moss\<close> when the engine has no list.
  (The registry holds four distinct engines.)
\<close>

theorem select_fallback_distinct:
  "\<exists>r. select available ctx prio = Inr r
     \<and> fallback_engine r \<noteq> recommended_engine r
     \<and> (available \<noteq> [] \<longrightarrow>
          (case map_of FALLBACK_CHAIN (recommended_engine r) of
             None \<Rightarrow> fallback_engine r = ''moss''
           | Some chain \<Rightarrow> chain \<noteq> [] \<and> fallback_engine r = hd chain))"
proof (cases "ranked available ctx prio")
  case Nil
  have av: "available = []" using Nil by (simp add: ranked_Nil_iff)
  show ?thesis unfolding select_empty [OF Nil] using av by simp
next
  case (Cons p rest)
  obtain b s where p: "p = (b, s)" by (cases p)
  have rk: "ranked available ctx prio = (b, s) # rest" using Cons p by simp
  have f: "first_fallback b = Inr (if b = ''nano-2512'' then ''paraformer-zh''
          else if b = ''paraformer-zh'' then ''sensevoice''
          else if b = ''sensevoice'' then ''paraformer-zh''
          else if b = ''moss'' then ''paraformer-zh'' else ''moss'')"
    by (rule first_fallback_cases)
  show ?thesis
    by (simp add: select_nonempty [OF rk f] FALLBACK_CHAIN_def)
qed

theorem select_fallback_distinct_witness:
  "\<exists>r. select [''moss'', ''nano-2512'']
          \<lparr>audio_path = None, duration_seconds = Finite 30, estimated_speakers = 1,
           language_hint = ''zh'', is_streaming = True, priority = ''balanced''\<rparr> None = Inr r
     \<and> fallback_engine r \<noteq> recommended_engine r
     \<and> (case map_of FALLBACK_CHAIN (recommended_engine r) of
             None \<Rightarrow> fallback_engine r = ''moss''
           | Some chain \<Rightarrow> chain \<noteq> [] \<and> fallback_engine r = hd chain)"
  using select_fallback_distinct [of "[''moss'', ''nano-2512'']"
     "\<lparr>audio_path = None, duration_seconds = Finite 30, estimated_speakers = 1,
           language_hint = ''zh'', is_streaming = True, priority = ''balanced''\<rparr>" None]
  by simp

text \<open>
  C6. \<open>detect_scenario\<close> is a total function, and it is the first-match evaluation of
  the six rules in the specification's order: streaming gives REALTIME; else a language
  hint \<open>en\<close> or \<open>multi\<close> gives MULTILINGUAL; else a duration below 5 with priority
  \<open>latency\<close> gives COMMAND; else more than one speaker gives MEETING; else a duration
  above 60 with priority \<open>accuracy\<close> gives TRANSCRIPTION; else GENERAL. In particular a
  streaming context with language hint \<open>multi\<close> is REALTIME.
\<close>

theorem detect_scenario_rules:
  "detect_scenario c = classify c
   \<and> (is_streaming c \<and> language_hint c = ''multi'' \<longrightarrow> detect_scenario c = REALTIME)"
  by (simp add: detect_scenario_def classify_def classification_rules_def)

theorem detect_scenario_rules_witness:
  "is_streaming \<lparr>audio_path = None, duration_seconds = Finite 30, estimated_speakers = 1,
           language_hint = ''multi'', is_streaming = True, priority = ''balanced''\<rparr>
   \<and> language_hint \<lparr>audio_path = None, duration_seconds = Finite 30, estimated_speakers = 1,
           language_hint = ''multi'', is_streaming = True, priority = ''balanced''\<rparr> = ''multi''
   \<and> detect_scenario \<lparr>audio_path = None, duration_seconds = Finite 30, estimated_speakers = 1,
           language_hint = ''multi'', is_streaming = True, priority = ''balanced''\<rparr> = REALTIME
   \<and> classify \<lparr>audio_path = None, duration_seconds = Finite 30, estimated_speakers = 1,
           language_hint = ''multi'', is_streaming = True, priority = ''balanced''\<rparr> = REALTIME"
  using detect_scenario_rules [of "\<lparr>audio_path = None, duration_seconds = Finite 30,
           estimated_speakers = 1, language_hint = ''multi'', is_streaming = True,
           priority = ''balanced''\<rparr>"]
  by auto

lemma clamp01_clamp: "clamp01 c = clamp c 0 1"
  by (simp add: clamp01_def clamp_def max_def min_def)

lemma clamp01_bounds: "0 \<le> clamp01 c \<and> clamp01 c \<le> 1"
  by (simp add: clamp01_def)

lemma sort_key_neg_rev_sort:
  fixes f :: "'a \<Rightarrow> rat"
  shows "map f (sort_key (\<lambda>x. - f x) xs) = rev (sort (map f xs))"
proof -
  let ?ys = "sort_key (\<lambda>x. - f x) xs"
  have "sorted (map (\<lambda>x. - f x) ?ys)" by (rule sorted_sort_key)
  then have srt: "sorted (rev (map f ?ys))"
    by (simp add: sorted_map sorted_wrt_rev sorted_wrt_map)
  have ms: "mset (rev (map f ?ys)) = mset (map f xs)" by simp
  have "sort (map f xs) = rev (map f ?ys)"
    using ms srt by (rule properties_for_sort)
  then show ?thesis by simp
qed

lemma totals_of_ranked:
  "map (total_score \<circ> snd) (ranked available ctx prio) = totals_descending available ctx prio"
proof -
  have "map (total_score \<circ> snd) (ranked available ctx prio)
          = rev (sort (map (total_score \<circ> snd) (scored available ctx prio)))"
    using sort_key_neg_rev_sort [of "total_score \<circ> snd" "scored available ctx prio"]
    by (simp add: ranked_def sort_scores_def comp_def)
  then show ?thesis
    by (simp add: totals_descending_def scored_def Let_def comp_def)
qed

text \<open>
  C7. For every list of available engines, context and priority argument, \<open>select\<close>
  returns a result whose confidence lies between 0 and 1. With at least two candidates
  the confidence is the clamp to [0, 1] of the highest total score among the candidates
  minus the second highest, divided by 100; with exactly one candidate it is 1.
\<close>

theorem select_confidence:
  "\<exists>r. select available ctx prio = Inr r
     \<and> 0 \<le> confidence r \<and> confidence r \<le> 1
     \<and> (2 \<le> length available \<longrightarrow>
          confidence r =
            clamp (fdiv (fsub (totals_descending available ctx prio ! 0)
                              (totals_descending available ctx prio ! 1)) 100) 0 1)
     \<and> (length available = 1 \<longrightarrow> confidence r = 1)"
proof (cases "ranked available ctx prio")
  case Nil
  have av: "available = []" using Nil by (simp add: ranked_Nil_iff)
  show ?thesis unfolding select_empty [OF Nil] using av by simp
next
  case (Cons p rest)
  obtain b s where p: "p = (b, s)" by (cases p)
  have rk: "ranked available ctx prio = (b, s) # rest" using Cons p by simp
  obtain f where f: "first_fallback b = Inr f"
    using first_fallback_total [of b] by blast
  have len: "length available = Suc (length rest)"
    using length_ranked [of available ctx prio] rk by simp
  have tot: "totals_descending available ctx prio
               = total_score s # map (total_score \<circ> snd) rest"
    using totals_of_ranked [of available ctx prio] rk by simp
  show ?thesis
  proof (cases rest)
    case Nil
    then show ?thesis using len by (simp add: select_nonempty [OF rk f])
  next
    case (Cons q rest')
    then show ?thesis
      using len clamp01_bounds
      by (simp add: select_nonempty [OF rk f] tot clamp01_clamp [symmetric])
  qed
qed

theorem select_confidence_witness:
  "(\<exists>r. select [''moss'', ''nano-2512''] \<lparr>audio_path = None, duration_seconds = Finite 30, estimated_speakers = 1,
           language_hint = ''zh'', is_streaming = True, priority = ''balanced''\<rparr> None = Inr r
      \<and> 0 \<le> confidence r \<and> confidence r \<le> 1
      \<and> confidence r =
            clamp (fdiv (fsub (totals_descending [''moss'', ''nano-2512''] \<lparr>audio_path = None, duration_seconds = Finite 30, estimated_speakers = 1,
           language_hint = ''zh'', is_streaming = True, priority = ''balanced''\<rparr> None ! 0)
                              (totals_descending [''moss'', ''nano-2512''] \<lparr>audio_path = None, duration_seconds = Finite 30, estimated_speakers = 1,
           language_hint = ''zh'', is_streaming = True, priority = ''balanced''\<rparr> None ! 1))
                        100) 0 1)
   \<and> (\<exists>r. select [''moss''] \<lparr>audio_path = None, duration_seconds = Finite 30, estimated_speakers = 1,
           language_hint = ''zh'', is_streaming = True, priority = ''balanced''\<rparr> None = Inr r \<and> confidence r = 1)"
proof -
  have h2: "2 \<le> length [''moss'', ''nano-2512'']" by simp
  have h1: "length [''moss''] = 1" by simp
  show ?thesis
    using h1 h2
        select_confidence [of "[''moss'', ''nano-2512'']" "\<lparr>audio_path = None, duration_seconds = Finite 30, estimated_speakers = 1,
           language_hint = ''zh'', is_streaming = True, priority = ''balanced''\<rparr>" None]
        select_confidence [of "[''moss'']" "\<lparr>audio_path = None, duration_seconds = Finite 30, estimated_speakers = 1,
           language_hint = ''zh'', is_streaming = True, priority = ''balanced''\<rparr>" None]
    by blast
qed

text \<open>
  The binary64 values of the literals, products, sums and quotients that the evaluations
  below meet, each computed from the definition of \<open>fl\<close>.
\<close>

lemma binary64_facts:
  "fl (1 / 2) = 1 / 2"
  "fl (3 / 10) = 5404319552844595 / 18014398509481984"
  "fl (1 / 5) = 3602879701896397 / 18014398509481984"
  "fmul 95 (1 / 2) = 95 / 2"
  "fmul 80 (5404319552844595 / 18014398509481984) = 24"
  "fadd (95 / 2) 24 = 143 / 2"
  "fmul 70 (3602879701896397 / 18014398509481984) = 14"
  "fadd (143 / 2) 14 = 171 / 2"
  "fl (1 / 10) = 3602879701896397 / 36028797018963968"
  "fmul 30 (3602879701896397 / 36028797018963968) = 3"
  "fmul 3 (1 / 2) = 3 / 2"
  "fmul 88 (5404319552844595 / 18014398509481984) = 3715469692580659 / 140737488355328"
  "fadd (3 / 2) (3715469692580659 / 140737488355328) = 3926575925113651 / 140737488355328"
  "fmul 100 (3602879701896397 / 18014398509481984) = 20"
  "fadd (3926575925113651 / 140737488355328) 20 = 6741325692220211 / 140737488355328"
  "fsub (171 / 2) (6741325692220211 / 140737488355328) = 5291729562160333 / 140737488355328"
  "fdiv (5291729562160333 / 140737488355328) 100 = 3386706919782613 / 9007199254740992"
  "fl (2 / 5) = 3602879701896397 / 9007199254740992"
  "fmul 80 (1 / 2) = 40"
  "fmul 95 (3602879701896397 / 9007199254740992) = 38"
  "fmul 40 (3602879701896397 / 9007199254740992) = 16"
  "fadd 38 16 = 54"
  "fadd 54 14 = 68"
  "fmul 50 (3602879701896397 / 9007199254740992) = 20"
  "fmul 90 (3602879701896397 / 9007199254740992) = 36"
  "fadd 20 36 = 56"
  "fmul 60 (3602879701896397 / 18014398509481984) = 12"
  "fadd 56 12 = 68"
  by code_simp+

text \<open>
  C3, amended. The ranking is sorted by descending total score, and the sort is stable:
  the candidates that share a total score appear in the ranking in the order in which
  they were supplied. No comparison of engine identifiers takes place.
\<close>

theorem ranked_sorted_stable:
  "sorted_wrt (\<lambda>a b. total_score (snd b) \<le> total_score (snd a)) (ranked available ctx prio)
   \<and> filter (\<lambda>x. total_score (snd x) = t) (ranked available ctx prio)
       = filter (\<lambda>x. total_score (snd x) = t) (scored available ctx prio)"
proof -
  let ?f = "\<lambda>x::string \<times> EngineScore. - total_score (snd x)"
  let ?xs = "scored available ctx prio"
  have "sorted (map ?f (sort_key ?f ?xs))" by (rule sorted_sort_key)
  then have a: "sorted_wrt (\<lambda>a b. total_score (snd b) \<le> total_score (snd a)) (sort_key ?f ?xs)"
    by (simp add: sorted_map)
  have "filter (\<lambda>y. ?f y = - t) (sort_key ?f ?xs) = filter (\<lambda>y. ?f y = - t) ?xs"
    by (rule sort_key_stable)
  then have b: "filter (\<lambda>x. total_score (snd x) = t) (sort_key ?f ?xs)
                = filter (\<lambda>x. total_score (snd x) = t) ?xs"
    by simp
  show ?thesis using a b by (simp add: ranked_def sort_scores_def)
qed

text \<open>
  The statement without the amendment fails. For a two-speaker context and the priority
  argument \<open>balanced\<close>, the engines \<open>nano-2512\<close> and \<open>paraformer-zh\<close> both total 68.
  Supplied as \<open>paraformer-zh\<close>, \<open>nano-2512\<close> they are ranked in that order, although
  \<open>nano-2512\<close> is the smaller identifier; supplied the other way round, the ranking is
  the other way round.
\<close>

theorem select_tie_counterexample:
  "map fst (ranked [''paraformer-zh'', ''nano-2512'']
       \<lparr>audio_path = None, duration_seconds = Finite 0, estimated_speakers = 2,
        language_hint = ''auto'', is_streaming = False, priority = ''balanced''\<rparr>
       (Some ''balanced'')) = [''paraformer-zh'', ''nano-2512'']
   \<and> map (total_score \<circ> snd) (ranked [''paraformer-zh'', ''nano-2512'']
       \<lparr>audio_path = None, duration_seconds = Finite 0, estimated_speakers = 2,
        language_hint = ''auto'', is_streaming = False, priority = ''balanced''\<rparr>
       (Some ''balanced'')) = [68, 68]
   \<and> ''nano-2512'' < ''paraformer-zh''
   \<and> map fst (ranked [''nano-2512'', ''paraformer-zh'']
       \<lparr>audio_path = None, duration_seconds = Finite 0, estimated_speakers = 2,
        language_hint = ''auto'', is_streaming = False, priority = ''balanced''\<rparr>
       (Some ''balanced'')) = [''nano-2512'', ''paraformer-zh'']"
  by (simp add: ranked_def sort_scores_def scored_def detect_scenario_def
        resolve_weights_def get_priority_weights_def score_engine_def cap_get_def ENGINE_CAPABILITIES_def Let_def mk_weights_def
        binary64_facts)

lemma fl_zero: "fl 0 = 0"
  by (simp add: fl_def)

lemma fmul_zero: "fmul 0 x = 0"
  by (simp add: fmul_def fl_zero)

lemma fadd_zero: "fadd 0 0 = 0"
  by (simp add: fadd_def fl_zero)

text \<open>
  C4, amended. The engine \<open>nano-2512\<close> (latency 95, accuracy 80, resource 70,
  streaming) scored under REALTIME with the REALTIME weights (0.5, 0.3, 0.2), for a
  context whose language hint is not \<open>zh\<close> (so that no penalty and no bonus applies),
  has total score 95*0.5 + 80*0.3 + 70*0.2 = 85.5.
\<close>

theorem realtime_score_nano:
  "language_hint ctx \<noteq> ''zh'' \<Longrightarrow>
   total_score (score_engine ''nano-2512'' REALTIME ctx (SCENARIO_WEIGHTS REALTIME)) = 171 / 2"
  by (simp add: score_engine_def cap_get_def ENGINE_CAPABILITIES_def Let_def mk_weights_def
        binary64_facts)

theorem realtime_score_nano_witness:
  "language_hint \<lparr>audio_path = None, duration_seconds = Finite 0, estimated_speakers = 1,
        language_hint = ''auto'', is_streaming = True, priority = ''balanced''\<rparr> \<noteq> ''zh''
   \<and> total_score (score_engine ''nano-2512'' REALTIME
       \<lparr>audio_path = None, duration_seconds = Finite 0, estimated_speakers = 1,
        language_hint = ''auto'', is_streaming = True, priority = ''balanced''\<rparr>
       (SCENARIO_WEIGHTS REALTIME)) = 171 / 2"
proof -
  have h: "language_hint \<lparr>audio_path = None, duration_seconds = Finite 0,
        estimated_speakers = 1, language_hint = ''auto'', is_streaming = True,
        priority = ''balanced''\<rparr> \<noteq> ''zh''"
    by simp
  show ?thesis using h realtime_score_nano [OF h] by blast
qed

text \<open>The total of that score is not the 95.5 of the unamended statement.\<close>

theorem realtime_score_counterexample:
  "total_score (score_engine ''nano-2512'' REALTIME
       \<lparr>audio_path = None, duration_seconds = Finite 0, estimated_speakers = 1,
        language_hint = ''auto'', is_streaming = True, priority = ''balanced''\<rparr>
       (SCENARIO_WEIGHTS REALTIME)) \<noteq> 191 / 2"
  by (simp add: score_engine_def cap_get_def ENGINE_CAPABILITIES_def Let_def mk_weights_def
        binary64_facts)

text \<open>
  C5, amended. Scoring an engine that is not in the registry does not fail: it returns
  a score whose latency, accuracy and resource components and whose total are 0, for
  every scenario, context and weights. A candidate that is not in the registry is not
  rejected either: the selector's constructor leaves it out of its engine list.
\<close>

theorem unknown_engine_scored_zero:
  "\<not> in_registry e \<Longrightarrow>
   total_score (score_engine e scn ctx wts) = 0
   \<and> latency_score (score_engine e scn ctx wts) = 0
   \<and> accuracy_score (score_engine e scn ctx wts) = 0
   \<and> resource_score (score_engine e scn ctx wts) = 0
   \<and> e \<notin> set (EngineSelector_init (Some candidates))"
  by (simp add: in_registry_def score_engine_def cap_get_def Let_def fmul_zero fadd_zero
        EngineSelector_init_def)

theorem unknown_engine_scored_zero_witness:
  "\<not> in_registry ''whisper''
   \<and> total_score (score_engine ''whisper'' MEETING
       \<lparr>audio_path = None, duration_seconds = Finite 0, estimated_speakers = 2,
        language_hint = ''zh'', is_streaming = False, priority = ''balanced''\<rparr>
       (SCENARIO_WEIGHTS MEETING)) = 0
   \<and> ''whisper'' \<notin> set (EngineSelector_init (Some [''whisper'', ''moss'']))"
proof -
  have h: "\<not> in_registry ''whisper''" by (simp add: in_registry_iff)
  show ?thesis
    using h unknown_engine_scored_zero [OF h, of MEETING
       "\<lparr>audio_path = None, duration_seconds = Finite 0, estimated_speakers = 2,
        language_hint = ''zh'', is_streaming = False, priority = ''balanced''\<rparr>"
       "SCENARIO_WEIGHTS MEETING" "[''whisper'', ''moss'']"]
    by blast
qed

text \<open>
  The engine \<open>whisper\<close> is not in the registry; scoring it gives a score and no error,
  and a selector built on \<open>whisper\<close> and \<open>moss\<close> keeps \<open>moss\<close> and reports nothing.
\<close>

theorem unknown_engine_counterexample:
  "score_engine ''whisper'' GENERAL
       \<lparr>audio_path = None, duration_seconds = Finite 0, estimated_speakers = 1,
        language_hint = ''auto'', is_streaming = False, priority = ''balanced''\<rparr>
       (SCENARIO_WEIGHTS GENERAL)
     = \<lparr>engine_name = ''whisper'', total_score = 0, latency_score = 0, accuracy_score = 0,
        resource_score = 0, feature_score = 0, reasons = []\<rparr>
   \<and> EngineSelector_init (Some [''whisper'', ''moss'']) = [''moss'']"
  by (simp add: score_engine_def cap_get_def ENGINE_CAPABILITIES_def Let_def fmul_zero
        fadd_zero EngineSelector_init_def in_registry_iff)

section \<open>Properties of the factory\<close>

lemma class_names:
  "EngineSelector_init (Some (get_available_engines (class_engines model_loads)))
     = [''moss'', ''nano-2512'']"
  by (simp add: EngineSelector_init_def get_available_engines_def class_engines_def
        in_registry_iff)

lemma select_recommended_member:
  "available \<noteq> [] \<Longrightarrow>
   \<exists>r. select available ctx prio = Inr r \<and> recommended_engine r \<in> set available"
proof (cases "ranked available ctx prio")
  case Nil
  assume "available \<noteq> []"
  with Nil show ?thesis by (simp add: ranked_Nil_iff)
next
  case (Cons p rest)
  obtain b s where p: "p = (b, s)" by (cases p)
  have rk: "ranked available ctx prio = (b, s) # rest" using Cons p by simp
  obtain f where f: "first_fallback b = Inr f"
    using first_fallback_total [of b] by blast
  have "b \<in> set available"
    using set_fst_ranked [of available ctx prio] rk by auto
  then show ?thesis by (simp add: select_nonempty [OF rk f])
qed

text \<open>
  One run of \<open>create_smart\<close>, step by step: a streaming context, the class table with
  models that load, and no keyword arguments.
\<close>

lemma smart_scored: "scored [''moss'', ''nano-2512'']
          \<lparr>audio_path = None, duration_seconds = Finite 0, estimated_speakers = 1,
          language_hint = ''auto'', is_streaming = True, priority = ''balanced''\<rparr> None
     = [(''moss'', \<lparr>engine_name = ''moss'', total_score = 6741325692220211 / 140737488355328,
                      latency_score = 3, accuracy_score = 88, resource_score = 100,
                      feature_score = 0, reasons = [NoStreaming]\<rparr>), (''nano-2512'', \<lparr>engine_name = ''nano-2512'', total_score = 171 / 2,
                      latency_score = 95, accuracy_score = 80, resource_score = 70,
                      feature_score = 0, reasons = [NativeStreaming]\<rparr>)]"
  by (simp add: scored_def detect_scenario_def resolve_weights_def score_engine_def
        cap_get_def ENGINE_CAPABILITIES_def Let_def mk_weights_def binary64_facts)

lemma smart_ranked: "ranked [''moss'', ''nano-2512'']
          \<lparr>audio_path = None, duration_seconds = Finite 0, estimated_speakers = 1,
          language_hint = ''auto'', is_streaming = True, priority = ''balanced''\<rparr> None
     = [(''nano-2512'', \<lparr>engine_name = ''nano-2512'', total_score = 171 / 2,
                      latency_score = 95, accuracy_score = 80, resource_score = 70,
                      feature_score = 0, reasons = [NativeStreaming]\<rparr>), (''moss'', \<lparr>engine_name = ''moss'', total_score = 6741325692220211 / 140737488355328,
                      latency_score = 3, accuracy_score = 88, resource_score = 100,
                      feature_score = 0, reasons = [NoStreaming]\<rparr>)]"
  by (simp add: ranked_def sort_scores_def smart_scored)

lemma smart_select: "select [''moss'', ''nano-2512'']
          \<lparr>audio_path = None, duration_seconds = Finite 0, estimated_speakers = 1,
          language_hint = ''auto'', is_streaming = True, priority = ''balanced''\<rparr> None
     = Inr \<lparr>recommended_engine = ''nano-2512'', fallback_engine = ''paraformer-zh'',
             scenario = REALTIME,
             score = \<lparr>engine_name = ''nano-2512'', total_score = 171 / 2,
                      latency_score = 95, accuracy_score = 80, resource_score = 70,
                      feature_score = 0, reasons = [NativeStreaming]\<rparr>,
             confidence = 3386706919782613 / 9007199254740992,
             alternatives = [''moss'']\<rparr>"
proof -
  have f: "first_fallback ''nano-2512'' = Inr ''paraformer-zh''"
    by (simp add: first_fallback_cases)
  show ?thesis
    by (simp add: select_nonempty [OF smart_ranked f] detect_scenario_def clamp01_def binary64_facts)
qed

lemma smart_selection: "create_smart_selection (class_engines True)
          \<lparr>audio_path = None, duration_seconds = Finite 0, estimated_speakers = 1,
          language_hint = ''auto'', is_streaming = True, priority = ''balanced''\<rparr>
     = Inr \<lparr>recommended_engine = ''nano-2512'', fallback_engine = ''paraformer-zh'',
             scenario = REALTIME,
             score = \<lparr>engine_name = ''nano-2512'', total_score = 171 / 2,
                      latency_score = 95, accuracy_score = 80, resource_score = 70,
                      feature_score = 0, reasons = [NativeStreaming]\<rparr>,
             confidence = 3386706919782613 / 9007199254740992,
             alternatives = [''moss'']\<rparr>"
  by (simp add: create_smart_selection_def class_names smart_select)

lemma smart_created: "snd (create_smart (class_engines True)
          \<lparr>audio_path = None, duration_seconds = Finite 0, estimated_speakers = 1,
          language_hint = ''auto'', is_streaming = True, priority = ''balanced''\<rparr> [])
     = Inr (\<lparr>client_class = ''FunASRNanoClient'', is_available = True\<rparr>,
            \<lparr>recommended_engine = ''nano-2512'', fallback_engine = ''paraformer-zh'',
             scenario = REALTIME,
             score = \<lparr>engine_name = ''nano-2512'', total_score = 171 / 2,
                      latency_score = 95, accuracy_score = 80, resource_score = 70,
                      feature_score = 0, reasons = [NativeStreaming]\<rparr>,
             confidence = 3386706919782613 / 9007199254740992,
             alternatives = [''moss'']\<rparr>)"
proof -
  have c: "create_with_fallback (class_engines True) ''nano-2512'' ''paraformer-zh'' []
           = ([CreateCall ''nano-2512''
                 [(''model'', VStr ''nano-2512''), (''device'', VStr ''cpu'')]],
              Inr \<lparr>client_class = ''FunASRNanoClient'', is_available = True\<rparr>)"
    by (simp add: create_with_fallback_def primary_kwargs_of_def create_def class_engines_def
          FunASRNanoClient_def accepts_def py_or_def kw_get_def kw_get_default_def Let_def)
  show ?thesis by (simp add: create_smart_def smart_selection c)
qed

text \<open>
  C10. With the engine table of the class body (\<open>moss\<close>, \<open>funasr\<close>, \<open>nano-2512\<close>,
  \<open>nano-mlt\<close>), the selector that \<open>create_smart\<close> builds keeps exactly \<open>moss\<close> and
  \<open>nano-2512\<close>, the two names that are also keys of the capability registry. For every
  context its selection returns a result whose recommended engine is \<open>nano-2512\<close> or
  \<open>moss\<close>, and so is the recommended engine of any result \<open>create_smart\<close> returns:
  never \<open>paraformer-zh\<close> or \<open>sensevoice\<close>.
\<close>

theorem create_smart_recommends_moss_or_nano:
  "EngineSelector_init (Some (get_available_engines (class_engines model_loads)))
     = [''moss'', ''nano-2512'']
   \<and> (\<exists>r. create_smart_selection (class_engines model_loads) ctx = Inr r
         \<and> (recommended_engine r = ''nano-2512'' \<or> recommended_engine r = ''moss''))
   \<and> (\<forall>client r. snd (create_smart (class_engines model_loads) ctx kw) = Inr (client, r)
         \<longrightarrow> recommended_engine r = ''nano-2512'' \<or> recommended_engine r = ''moss'')"
proof -
  let ?engs = "class_engines model_loads"
  obtain r0 where r0: "create_smart_selection ?engs ctx = Inr r0"
      "recommended_engine r0 \<in> set [''moss'', ''nano-2512'']"
    using select_recommended_member [of "[''moss'', ''nano-2512'']" ctx None]
    unfolding create_smart_selection_def class_names by auto
  have rec: "recommended_engine r0 = ''nano-2512'' \<or> recommended_engine r0 = ''moss''"
    using r0(2) by auto
  have "\<And>client r. snd (create_smart ?engs ctx kw) = Inr (client, r) \<Longrightarrow> r = r0"
    by (auto simp: create_smart_def r0(1) split: prod.splits sum.splits)
  then show ?thesis using r0(1) rec class_names by blast
qed

theorem create_smart_recommends_moss_or_nano_witness:
  "snd (create_smart (class_engines True)
          \<lparr>audio_path = None, duration_seconds = Finite 0, estimated_speakers = 1,
          language_hint = ''auto'', is_streaming = True, priority = ''balanced''\<rparr> [])
     = Inr (\<lparr>client_class = ''FunASRNanoClient'', is_available = True\<rparr>,
            \<lparr>recommended_engine = ''nano-2512'', fallback_engine = ''paraformer-zh'',
             scenario = REALTIME,
             score = \<lparr>engine_name = ''nano-2512'', total_score = 171 / 2,
                      latency_score = 95, accuracy_score = 80, resource_score = 70,
                      feature_score = 0, reasons = [NativeStreaming]\<rparr>,
             confidence = 3386706919782613 / 9007199254740992,
             alternatives = [''moss'']\<rparr>)
   \<and> (recommended_engine
            \<lparr>recommended_engine = ''nano-2512'', fallback_engine = ''paraformer-zh'',
             scenario = REALTIME,
             score = \<lparr>engine_name = ''nano-2512'', total_score = 171 / 2,
                      latency_score = 95, accuracy_score = 80, resource_score = 70,
                      feature_score = 0, reasons = [NativeStreaming]\<rparr>,
             confidence = 3386706919782613 / 9007199254740992,
             alternatives = [''moss'']\<rparr> = ''nano-2512''
      \<or> recommended_engine
            \<lparr>recommended_engine = ''nano-2512'', fallback_engine = ''paraformer-zh'',
             scenario = REALTIME,
             score = \<lparr>engine_name = ''nano-2512'', total_score = 171 / 2,
                      latency_score = 95, accuracy_score = 80, resource_score = 70,
                      feature_score = 0, reasons = [NativeStreaming]\<rparr>,
             confidence = 3386706919782613 / 9007199254740992,
             alternatives = [''moss'']\<rparr> = ''moss'')"
  using smart_created create_smart_recommends_moss_or_nano [of True
          "\<lparr>audio_path = None, duration_seconds = Finite 0, estimated_speakers = 1,
          language_hint = ''auto'', is_streaming = True, priority = ''balanced''\<rparr>" "[]"]
  by blast

text \<open>
  C1. The designated fallback is not always attempted when the primary fails. Two runs
  of \<open>create_with_fallback\<close> on the class table: (1) primary \<open>moss\<close> without an
  \<open>api_key\<close>, so that its client is not available, and fallback \<open>funasr\<close>, whose
  construction succeeds: the only construction is the one of \<open>moss\<close>, and the operation
  fails with "no fallback option"; (2) primary \<open>nano-2512\<close> whose model does not load,
  and fallback \<open>paraformer-zh\<close>, the fallback that \<open>create_smart\<close> passes for
  \<open>nano-2512\<close>: the message of the fallback to \<open>paraformer-zh\<close> is printed, no second
  construction follows, and the operation fails with "no fallback option".
\<close>

theorem create_with_fallback_skips_fallback:
  "primary_failed (class_engines True) ''moss'' []
   \<and> create (class_engines True) ''funasr'' (fallback_kwargs_of ''funasr'' [])
       = Inr \<lparr>client_class = ''FunASRClient'', is_available = True\<rparr>
   \<and> create_with_fallback (class_engines True) ''moss'' ''funasr'' []
       = ([CreateCall ''moss'' [(''api_key'', VStr [])]],
          Inl (RuntimeError (NoFallbackOption ''moss'')))
   \<and> primary_failed (class_engines False) ''nano-2512'' []
   \<and> create_with_fallback (class_engines False) ''nano-2512'' ''paraformer-zh'' []
       = ([CreateCall ''nano-2512'' [(''model'', VStr ''nano-2512''), (''device'', VStr ''cpu'')],
           PrintInitFailed ''nano-2512'' (RuntimeError ModelLoadFailed),
           PrintFallback ''paraformer-zh''],
          Inl (RuntimeError (NoFallbackOption ''nano-2512'')))"
  by code_simp

end
